theory Spec2Isabelle
  imports Main
begin

section \<open>JavaScript values\<close>

text \<open>
  The batch script of \<^verbatim>\<open>apps/web/vite.config.ts\<close> (its last document, the one with
  \<^verbatim>\<open>getStats\<close> and \<^verbatim>\<open>compareSpeed\<close>) works on the value that \<^verbatim>\<open>JSON.parse\<close> returns.
  Such a value is modelled as it is in JavaScript: dynamically typed. \<open>JUndefined\<close> is
  what reading an absent property gives. Numbers are integers here (levels, EVs, IVs,
  boost stages and stats are integral). An object is the list of its members in
  insertion order; where a key occurs twice the later member wins, as in \<^verbatim>\<open>JSON.parse\<close>
  and in an object literal, so that spreading one object after another is appending.
\<close>

datatype jsval =
    JUndefined
  | JNull
  | JBool bool
  | JNum int
  | JStr string
  | JArr "jsval list"
  | JObj "(string \<times> jsval) list"

text \<open>\<^verbatim>\<open>!v\<close> is \<open>\<not> truthy v\<close>.\<close>

fun truthy :: "jsval \<Rightarrow> bool" where
  "truthy JUndefined = False"
| "truthy JNull = False"
| "truthy (JBool b) = b"
| "truthy (JNum n) = (n \<noteq> 0)"
| "truthy (JStr s) = (s \<noteq> [])"
| "truthy (JArr xs) = True"
| "truthy (JObj kvs) = True"

text \<open>\<^verbatim>\<open>a || b\<close>\<close>

definition js_or :: "jsval \<Rightarrow> jsval \<Rightarrow> jsval" where
  "js_or a b = (if truthy a then a else b)"

text \<open>
  \<^verbatim>\<open>v.k\<close> for a value that is neither \<^verbatim>\<open>undefined\<close> nor \<^verbatim>\<open>null\<close>. The keys the script reads
  are fixed identifiers, none of them an index, \<^verbatim>\<open>length\<close> or a prototype member, so
  reading one from an array, a string, a number or a boolean gives \<^verbatim>\<open>undefined\<close>.
\<close>

definition lookup :: "(string \<times> jsval) list \<Rightarrow> string \<Rightarrow> jsval" where
  "lookup kvs k = (case map_of (rev kvs) k of None \<Rightarrow> JUndefined | Some v \<Rightarrow> v)"

fun get :: "jsval \<Rightarrow> string \<Rightarrow> jsval" where
  "get (JObj kvs) k = lookup kvs k"
| "get v k = JUndefined"

text \<open>
  A property read \<^verbatim>\<open>v.k\<close> where \<open>v\<close> may be \<^verbatim>\<open>undefined\<close> or \<^verbatim>\<open>null\<close>: JavaScript
  throws a TypeError then. A thrown value is the left summand, holding the message that
  the dispatcher's \<^verbatim>\<open>catch\<close> extracts from it
  (\<^verbatim>\<open>error instanceof Error ? error.message : String(error)\<close>); the TypeError's
  message is written as Node prints it.
\<close>

type_synonym 'a thrown = "string + 'a"

fun seq :: "'a thrown \<Rightarrow> ('a \<Rightarrow> 'b thrown) \<Rightarrow> 'b thrown" where
  "seq (Inl e) f = Inl e"
| "seq (Inr v) f = f v"

definition nullish :: "jsval \<Rightarrow> bool" where
  "nullish v = (v = JUndefined \<or> v = JNull)"

definition cannot_read :: "jsval \<Rightarrow> string \<Rightarrow> string" where
  "cannot_read v k =
     ''Cannot read properties of '' @ (if v = JNull then ''null'' else ''undefined'') @
     '' (reading '' @ [CHR 0x27] @ k @ [CHR 0x27] @ '')''"

definition read_prop :: "jsval \<Rightarrow> string \<Rightarrow> jsval thrown" where
  "read_prop v k = (if nullish v then Inl (cannot_read v k) else Inr (get v k))"

text \<open>\<^verbatim>\<open>v?.k\<close>\<close>

definition opt_get :: "jsval \<Rightarrow> string \<Rightarrow> jsval" where
  "opt_get v k = (if nullish v then JUndefined else get v k)"

text \<open>
  The own enumerable properties that a spread \<^verbatim>\<open>{...v}\<close> copies: the members of an
  object, the indexed elements of an array, the indexed characters of a string, and
  nothing for any other value. With them \<^verbatim>\<open>{...a, ...b, k: v}\<close> is
  \<open>JObj (own_props a @ own_props b @ [(k, v)])\<close>.
\<close>

fun index_key :: "nat \<Rightarrow> string" where
  "index_key n =
     (if n < 10 then [char_of (48 + n)]
      else index_key (n div 10) @ [char_of (48 + n mod 10)])"

fun own_props :: "jsval \<Rightarrow> (string \<times> jsval) list" where
  "own_props (JObj kvs) = kvs"
| "own_props (JArr xs) = zip (map index_key [0..<length xs]) xs"
| "own_props (JStr s) = zip (map index_key [0..<length s]) (map (\<lambda>c. JStr [c]) s)"
| "own_props v = []"

text \<open>
  \<^verbatim>\<open>for (const request of requests)\<close>: an array yields its elements, a string its
  characters; any other value is not iterable and the loop throws before its first
  iteration.
\<close>

fun iterate :: "jsval \<Rightarrow> jsval list thrown" where
  "iterate (JArr xs) = Inr xs"
| "iterate (JStr s) = Inr (map (\<lambda>c. JStr [c]) s)"
| "iterate v = Inl ''requests is not iterable''"

section \<open>The calculator library\<close>

text \<open>
  \<^verbatim>\<open>@smogon/calc\<close> is not part of the repository: the script is verified for every
  library, which is a parameter \<open>orc\<close> of each function. An object of the library is
  opaque but for the fields the script reads from it. \<^verbatim>\<open>Pokemon\<close> objects have the
  fields of the record \<open>pokemon\<close> and more (the record's extension); \<^verbatim>\<open>Move\<close>,
  \<^verbatim>\<open>Field\<close>, generation and result objects are type parameters. An options object
  literal is handed over as the function that reads a key from it, an absent key
  reading \<^verbatim>\<open>undefined\<close>. The constructors of \<^verbatim>\<open>Pokemon\<close> and \<^verbatim>\<open>Move\<close>, \<^verbatim>\<open>calculate\<close> and
  the methods of its result may throw; \<^verbatim>\<open>Generations.get\<close> and the constructor of the
  value class \<^verbatim>\<open>Field\<close> return.

  One fact about the library matters to what the script reports as boosted speed. The
  constructor of \<^verbatim>\<open>Pokemon\<close> computes each stat once and stores the value in both
  \<^verbatim>\<open>rawStats\<close> and \<^verbatim>\<open>stats\<close>; the boost stages are kept in \<^verbatim>\<open>boosts\<close> and are applied to
  \<^verbatim>\<open>stats\<close> only inside \<^verbatim>\<open>calculate\<close>. Theorems that depend on it take it as the
  hypothesis that \<open>stats p = rawStats p\<close> for every \<open>p\<close> the constructor returns.
\<close>

record stats_table =
  hp :: int
  atk :: int
  def :: int
  spa :: int
  spd :: int
  spe :: int

record species =
  name :: string
  baseStats :: stats_table

record pokemon =
  species :: species
  level :: int
  rawStats :: stats_table
  stats :: stats_table

type_synonym options = "string \<Rightarrow> jsval"

record ('g, 'x, 'm, 'f, 'r) calculator =
  Generations_get :: "jsval \<Rightarrow> 'g"
  new_Pokemon :: "'g \<Rightarrow> jsval \<Rightarrow> options \<Rightarrow> 'x pokemon_scheme thrown"
  new_Move :: "'g \<Rightarrow> jsval \<Rightarrow> options \<Rightarrow> 'm thrown"
  new_Field :: "jsval \<Rightarrow> 'f"
  calculate :: "'g \<Rightarrow> 'x pokemon_scheme \<Rightarrow> 'x pokemon_scheme \<Rightarrow> 'm \<Rightarrow> 'f \<Rightarrow> 'r thrown"
  result_damage :: "'r \<Rightarrow> jsval"
  result_range :: "'r \<Rightarrow> (int \<times> int) thrown"
  result_kochance :: "'r \<Rightarrow> jsval thrown"
  result_desc :: "'r \<Rightarrow> jsval thrown"
  result_fullDesc :: "'r \<Rightarrow> jsval thrown"

section \<open>Entity builders\<close>

text \<open>
  The options object literals of the three builders, as the library reads them.
\<close>

definition pokemonOptions :: "jsval \<Rightarrow> options" where
  "pokemonOptions data = get (JObj
     [(''level'', get data ''level''),
      (''ability'', get data ''ability''),
      (''item'', get data ''item''),
      (''nature'', get data ''nature''),
      (''evs'', get data ''evs''),
      (''ivs'', get data ''ivs''),
      (''boosts'', get data ''boosts''),
      (''status'', get data ''status''),
      (''teraType'', get data ''teraType''),
      (''moves'', get data ''moves''),
      (''curHP'', get data ''curHP''),
      (''originalCurHP'', get data ''originalCurHP'')])"

definition maxSpeedOptions :: "jsval \<Rightarrow> options" where
  "maxSpeedOptions data = get (JObj
     [(''level'', js_or (get data ''level'') (JNum 100)),
      (''ability'', get data ''ability''),
      (''item'', get data ''item''),
      (''nature'', JStr ''Jolly''),
      (''evs'', JObj [(''hp'', JNum 0), (''atk'', JNum 0), (''def'', JNum 0),
                      (''spa'', JNum 0), (''spd'', JNum 0), (''spe'', JNum 252)]),
      (''ivs'', JObj [(''hp'', JNum 31), (''atk'', JNum 31), (''def'', JNum 31),
                      (''spa'', JNum 31), (''spd'', JNum 31), (''spe'', JNum 31)]),
      (''boosts'', get data ''boosts''),
      (''status'', get data ''status'')])"

definition moveOptions :: "jsval \<Rightarrow> options" where
  "moveOptions data = get (JObj
     [(''useZ'', get data ''useZ''),
      (''useMax'', get data ''useMax''),
      (''isCrit'', get data ''isCrit''),
      (''isStellarFirstUse'', get data ''isStellarFirstUse''),
      (''hits'', get data ''hits''),
      (''timesUsed'', get data ''timesUsed''),
      (''timesUsedWithMetronome'', get data ''timesUsedWithMetronome'')])"

definition buildPokemon ::
  "('g, 'x, 'm, 'f, 'r) calculator \<Rightarrow> 'g \<Rightarrow> jsval \<Rightarrow> 'x pokemon_scheme thrown" where
  "buildPokemon orc gen data =
     (if \<not> truthy data \<or> \<not> truthy (get data ''name'') then
        Inl ''Pokemon data missing name''
      else new_Pokemon orc gen (get data ''name'') (pokemonOptions data))"

definition buildMaxSpeedPokemon ::
  "('g, 'x, 'm, 'f, 'r) calculator \<Rightarrow> 'g \<Rightarrow> jsval \<Rightarrow> 'x pokemon_scheme thrown" where
  "buildMaxSpeedPokemon orc gen data =
     (if \<not> truthy data \<or> \<not> truthy (get data ''name'') then
        Inl ''Pokemon data missing name''
      else new_Pokemon orc gen (get data ''name'') (maxSpeedOptions data))"

definition buildMove ::
  "('g, 'x, 'm, 'f, 'r) calculator \<Rightarrow> 'g \<Rightarrow> jsval \<Rightarrow> 'm thrown" where
  "buildMove orc gen data =
     (if \<not> truthy data \<or> \<not> truthy (get data ''name'') then
        Inl ''Move data missing name''
      else new_Move orc gen (get data ''name'') (moveOptions data))"

definition base :: jsval where
  "base = JObj [(''gameType'', JStr ''Singles''),
                (''attackerSide'', JObj []),
                (''defenderSide'', JObj [])]"

text \<open>The object literal that \<^verbatim>\<open>buildField\<close> hands to \<^verbatim>\<open>new Field\<close> for a truthy \<open>data\<close>.\<close>

definition fieldInit :: "jsval \<Rightarrow> jsval" where
  "fieldInit data =
     JObj (own_props base @ own_props data @
       [(''attackerSide'',
           JObj (own_props (get base ''attackerSide'') @
                 own_props (js_or (get data ''attackerSide'') (JObj [])))),
        (''defenderSide'',
           JObj (own_props (get base ''defenderSide'') @
                 own_props (js_or (get data ''defenderSide'') (JObj []))))])"

definition buildField :: "('g, 'x, 'm, 'f, 'r) calculator \<Rightarrow> jsval \<Rightarrow> 'f" where
  "buildField orc data =
     (if \<not> truthy data then new_Field orc base else new_Field orc (fieldInit data))"

section \<open>Request handlers\<close>

definition getStats ::
  "('g, 'x, 'm, 'f, 'r) calculator \<Rightarrow> 'g \<Rightarrow> jsval \<Rightarrow> jsval thrown" where
  "getStats orc gen request =
     seq (read_prop request ''maxSpeed'') (\<lambda>maxSpeed.
     seq (if truthy maxSpeed then buildMaxSpeedPokemon orc gen (get request ''pokemon'')
          else buildPokemon orc gen (get request ''pokemon'')) (\<lambda>pokemon.
     Inr (JObj
       [(''hp'', JNum (hp (rawStats pokemon))),
        (''atk'', JNum (atk (rawStats pokemon))),
        (''def'', JNum (def (rawStats pokemon))),
        (''spa'', JNum (spa (rawStats pokemon))),
        (''spd'', JNum (spd (rawStats pokemon))),
        (''spe'', JNum (spe (rawStats pokemon))),
        (''boostedSpe'', JNum (spe (stats pokemon))),
        (''species'', JStr (name (species pokemon))),
        (''level'', JNum (level pokemon))])))"

definition calcOne ::
  "('g, 'x, 'm, 'f, 'r) calculator \<Rightarrow> 'g \<Rightarrow> jsval \<Rightarrow> jsval thrown" where
  "calcOne orc gen request =
     seq (read_prop request ''attacker'') (\<lambda>attacker_data.
     seq (buildPokemon orc gen attacker_data) (\<lambda>attacker.
     seq (buildPokemon orc gen (get request ''defender'')) (\<lambda>defender.
     seq (buildMove orc gen (get request ''move'')) (\<lambda>move.
     seq (calculate orc gen attacker defender move (buildField orc (get request ''field'')))
       (\<lambda>result.
     seq (result_range orc result) (\<lambda>(minDamage, maxDamage).
     seq (result_kochance orc result) (\<lambda>ko.
     seq (result_desc orc result) (\<lambda>desc.
     seq (result_fullDesc orc result) (\<lambda>full_desc.
     Inr (JObj
       [(''damage'', result_damage orc result),
        (''range'', JArr [JNum minDamage, JNum maxDamage]),
        (''desc'', desc),
        (''full_desc'', full_desc),
        (''ko'', ko),
        (''attacker_stats'', JObj
           [(''spe'', JNum (spe (rawStats attacker))),
            (''boostedSpe'', JNum (spe (stats attacker)))]),
        (''defender_stats'', JObj
           [(''spe'', JNum (spe (rawStats defender))),
            (''boostedSpe'', JNum (spe (stats defender)))])]))))))))))"

text \<open>
  \<^verbatim>\<open>compareSpeed\<close> builds each side with the same conditional expression, written out
  once for \<^verbatim>\<open>request.pokemon1\<close> and once for \<^verbatim>\<open>request.pokemon2\<close>; \<open>speedSide\<close> is that
  expression.
\<close>

definition speedSide ::
  "('g, 'x, 'm, 'f, 'r) calculator \<Rightarrow> 'g \<Rightarrow> jsval \<Rightarrow> 'x pokemon_scheme thrown" where
  "speedSide orc gen p =
     seq (read_prop p ''actualStats'') (\<lambda>actualStats.
       if truthy actualStats then
         buildPokemon orc gen (JObj (own_props p @
           [(''evs'', js_or (get p ''evs'') (JObj [(''spe'', JNum 252)])),
            (''ivs'', js_or (get p ''ivs'') (JObj [(''spe'', JNum 31)]))]))
       else buildMaxSpeedPokemon orc gen p)"

definition verdict_of :: "int \<Rightarrow> int \<Rightarrow> string" where
  "verdict_of spe1 spe2 =
     (if spe1 > spe2 then ''POKEMON1_FASTER''
      else if spe2 > spe1 then ''POKEMON2_FASTER''
      else ''SPEED_TIE'')"

definition speedSummary :: "'x pokemon_scheme \<Rightarrow> jsval \<Rightarrow> jsval" where
  "speedSummary pokemon p =
     JObj [(''name'', JStr (name (species pokemon))),
           (''baseSpe'', JNum (spe (baseStats (species pokemon)))),
           (''rawSpe'', JNum (spe (rawStats pokemon))),
           (''effectiveSpe'', JNum (spe (stats pokemon))),
           (''boosts'', js_or (opt_get (get p ''boosts'') ''spe'') (JNum 0))]"

definition compareSpeed ::
  "('g, 'x, 'm, 'f, 'r) calculator \<Rightarrow> 'g \<Rightarrow> jsval \<Rightarrow> jsval thrown" where
  "compareSpeed orc gen request =
     seq (read_prop request ''pokemon1'') (\<lambda>p1.
     seq (speedSide orc gen p1) (\<lambda>pokemon1.
     seq (speedSide orc gen (get request ''pokemon2'')) (\<lambda>pokemon2.
     Inr (JObj
       [(''pokemon1'', speedSummary pokemon1 p1),
        (''pokemon2'', speedSummary pokemon2 (get request ''pokemon2'')),
        (''verdict'', JStr (verdict_of (spe (stats pokemon1)) (spe (stats pokemon2))))]))))"

section \<open>Batch dispatcher\<close>

text \<open>The body of the \<^verbatim>\<open>try\<close>: the handler chosen by \<^verbatim>\<open>request.type\<close>.\<close>

definition route ::
  "('g, 'x, 'm, 'f, 'r) calculator \<Rightarrow> 'g \<Rightarrow> jsval \<Rightarrow> jsval thrown" where
  "route orc gen request =
     seq (read_prop request ''type'') (\<lambda>type.
       if type = JStr ''stats'' then getStats orc gen request
       else if type = JStr ''speed'' then compareSpeed orc gen request
       else calcOne orc gen request)"

text \<open>One iteration of the loop: the element it pushes onto \<^verbatim>\<open>results\<close>.\<close>

definition handleRequest ::
  "('g, 'x, 'm, 'f, 'r) calculator \<Rightarrow> 'g \<Rightarrow> jsval \<Rightarrow> jsval" where
  "handleRequest orc gen request =
     (case route orc gen request of
        Inr result \<Rightarrow> JObj [(''ok'', JBool True), (''result'', result)]
      | Inl message \<Rightarrow> JObj [(''ok'', JBool False), (''error'', JStr message)])"

text \<open>The loop, with the array \<^verbatim>\<open>results\<close> passed along.\<close>

fun dispatch ::
  "('g, 'x, 'm, 'f, 'r) calculator \<Rightarrow> 'g \<Rightarrow> jsval list \<Rightarrow> jsval list \<Rightarrow> jsval list" where
  "dispatch orc gen [] results = results"
| "dispatch orc gen (request # rest) results =
     dispatch orc gen rest (results @ [handleRequest orc gen request])"

text \<open>
  The script from the parsed payload (\<^verbatim>\<open>{}\<close> for an empty input) to the value it
  serialises. A throw outside the loop's \<^verbatim>\<open>try\<close> ends the process with no output.
\<close>

definition run :: "('g, 'x, 'm, 'f, 'r) calculator \<Rightarrow> jsval \<Rightarrow> jsval thrown" where
  "run orc payload =
     seq (read_prop payload ''gen'') (\<lambda>payload_gen.
     seq (iterate (js_or (get payload ''requests'') (JArr []))) (\<lambda>requests.
     Inr (JObj [(''results'',
       JArr (dispatch orc (Generations_get orc (js_or payload_gen (JNum 9))) requests []))])))"

text \<open>\<^verbatim>\<open>const gen = Generations.get(payload.gen || 9)\<close>, for a payload that can be read.\<close>

definition batch_gen :: "('g, 'x, 'm, 'f, 'r) calculator \<Rightarrow> jsval \<Rightarrow> 'g" where
  "batch_gen orc payload = Generations_get orc (js_or (get payload ''gen'') (JNum 9))"

text \<open>An element of \<^verbatim>\<open>results\<close> reports success when its \<^verbatim>\<open>ok\<close> is \<^verbatim>\<open>true\<close>.\<close>

definition is_ok :: "jsval \<Rightarrow> bool" where
  "is_ok r = (get r ''ok'' = JBool True)"

section \<open>Notions of the specification\<close>

text \<open>
  The effective speed that \<^verbatim>\<open>compareSpeed\<close> computes for a side described by \<open>p\<close>: its
  \<^verbatim>\<open>spe1\<close> and \<^verbatim>\<open>spe2\<close>.
\<close>

definition sideSpeed :: "('g, 'x, 'm, 'f, 'r) calculator \<Rightarrow> 'g \<Rightarrow> jsval \<Rightarrow> int thrown" where
  "sideSpeed orc gen p = seq (speedSide orc gen p) (\<lambda>pokemon. Inr (spe (stats pokemon)))"

text \<open>
  The explicit request of the specification's maximum-investment default: the
  description \<open>p\<close> restated with the \<^verbatim>\<open>actualStats\<close> flag, the level \<open>lvl\<close>, the speed-raising
  nature, EVs \<^verbatim>\<open>{spe: 252}\<close> with all others 0 and IVs all 31, keeping its name, ability,
  item, status and boosts.
\<close>

definition explicitMaxRequest :: "jsval \<Rightarrow> jsval \<Rightarrow> jsval" where
  "explicitMaxRequest lvl p =
     JObj [(''name'', get p ''name''),
           (''actualStats'', JBool True),
           (''level'', lvl),
           (''ability'', get p ''ability''),
           (''item'', get p ''item''),
           (''nature'', JStr ''Jolly''),
           (''evs'', JObj [(''hp'', JNum 0), (''atk'', JNum 0), (''def'', JNum 0),
                           (''spa'', JNum 0), (''spd'', JNum 0), (''spe'', JNum 252)]),
           (''ivs'', JObj [(''hp'', JNum 31), (''atk'', JNum 31), (''def'', JNum 31),
                           (''spa'', JNum 31), (''spd'', JNum 31), (''spe'', JNum 31)]),
           (''boosts'', get p ''boosts''),
           (''status'', get p ''status'')]"

text \<open>The option fields that \<^verbatim>\<open>buildPokemon\<close> passes on.\<close>

definition pokemon_keys :: "string list" where
  "pokemon_keys =
     [''level'', ''ability'', ''item'', ''nature'', ''evs'', ''ivs'', ''boosts'', ''status'',
      ''teraType'', ''moves'', ''curHP'', ''originalCurHP'']"

text \<open>Whether a description has a member of the given key, whatever its value.\<close>

fun has_field :: "jsval \<Rightarrow> string \<Rightarrow> bool" where
  "has_field (JObj kvs) k = (k \<in> set (map fst kvs))"
| "has_field v k = False"

section \<open>An example library\<close>

text \<open>
  Closed examples need a library to run against. \<open>example_calc\<close> follows the library's
  \<^verbatim>\<open>Pokemon\<close> constructor for two species: the name is matched by its identifier
  (\<^verbatim>\<open>toID\<close>: lower case, letters and digits only), the level is \<^verbatim>\<open>options.level || 100\<close>,
  a missing EV is 0 and a missing IV 31, the nature (\<^verbatim>\<open>Serious\<close> when none is given, an
  unknown one counting as neutral) raises one stat by a tenth and lowers another, each
  stat is derived by the stat formula of generations 3 to 9 in integer arithmetic, and
  \<^verbatim>\<open>stats\<close> is set to the same values as \<^verbatim>\<open>rawStats\<close>. It answers for any generation as
  for generation 9. Its one move and its damage result, a pair of rolls, are
  placeholders: the damage formula is not modelled. \<open>stage_boost\<close> is the multiplier of
  a boost stage, which the library applies inside \<^verbatim>\<open>calculate\<close>. The example library
  stands for no part of the repository and is used only to evaluate the script on
  concrete requests.
\<close>

definition lower_char :: "char \<Rightarrow> char" where
  "lower_char c =
     (case map_of (zip ''ABCDEFGHIJKLMNOPQRSTUVWXYZ'' ''abcdefghijklmnopqrstuvwxyz'') c of
        Some l \<Rightarrow> l
      | None \<Rightarrow> c)"

definition id_char :: "char \<Rightarrow> bool" where
  "id_char c = (c \<in> set ''abcdefghijklmnopqrstuvwxyz0123456789'')"

definition toID :: "string \<Rightarrow> string" where
  "toID s = filter id_char (map lower_char s)"

definition example_species :: "string \<Rightarrow> (string \<times> stats_table) option" where
  "example_species n =
     (if toID n = ''garchomp'' then
        Some (''Garchomp'',
              \<lparr>hp = 108, atk = 130, def = 95, spa = 80, spd = 85, spe = 102\<rparr>)
      else if toID n = ''ninetalesalola'' then
        Some (''Ninetales-Alola'',
              \<lparr>hp = 73, atk = 67, def = 75, spa = 81, spd = 100, spe = 109\<rparr>)
      else None)"

text \<open>The stat a nature raises and the stat it lowers.\<close>

definition nature_mods :: "(string \<times> string \<times> string) list" where
  "nature_mods =
     [(''adamant'', ''atk'', ''spa''), (''bold'', ''def'', ''atk''),
      (''brave'', ''atk'', ''spe''), (''calm'', ''spd'', ''atk''),
      (''careful'', ''spd'', ''spa''), (''gentle'', ''spd'', ''def''),
      (''hasty'', ''spe'', ''def''), (''impish'', ''def'', ''spa''),
      (''jolly'', ''spe'', ''spa''), (''lax'', ''def'', ''spd''),
      (''lonely'', ''atk'', ''def''), (''mild'', ''spa'', ''def''),
      (''modest'', ''spa'', ''atk''), (''naive'', ''spe'', ''spd''),
      (''naughty'', ''atk'', ''spd''), (''quiet'', ''spa'', ''spe''),
      (''rash'', ''spa'', ''spd''), (''relaxed'', ''def'', ''spe''),
      (''sassy'', ''spd'', ''spe''), (''timid'', ''spe'', ''atk'')]"

definition nature_of :: "jsval \<Rightarrow> (string \<times> string) option" where
  "nature_of v = (case v of JStr n \<Rightarrow> map_of nature_mods (toID n) | _ \<Rightarrow> None)"

definition num_or :: "jsval \<Rightarrow> int \<Rightarrow> int" where
  "num_or v d = (case v of JNum n \<Rightarrow> (if n = 0 then d else n) | _ \<Rightarrow> d)"

definition example_stat ::
  "(string \<times> string) option \<Rightarrow> string \<Rightarrow> int \<Rightarrow> int \<Rightarrow> int \<Rightarrow> int \<Rightarrow> int" where
  "example_stat nature stat b iv ev lvl =
     (let plain = ((2 * b + iv + ev div 4) * lvl) div 100 + 5
      in case nature of
           None \<Rightarrow> plain
         | Some (raised, lowered) \<Rightarrow>
             if raised = stat \<and> lowered = stat then plain
             else if raised = stat then (plain * 11) div 10
             else if lowered = stat then (plain * 9) div 10
             else plain)"

definition stage_boost :: "int \<Rightarrow> int \<Rightarrow> int" where
  "stage_boost raw stage =
     (if stage \<ge> 0 then (raw * (2 + stage)) div 2 else (raw * 2) div (2 - stage))"

definition example_raw :: "stats_table \<Rightarrow> options \<Rightarrow> stats_table" where
  "example_raw b opts =
     (let lvl = num_or (opts ''level'') 100;
          nature = nature_of (opts ''nature'');
          ev = (\<lambda>k. case get (opts ''evs'') k of JNum e \<Rightarrow> e | _ \<Rightarrow> 0);
          iv = (\<lambda>k. case get (opts ''ivs'') k of JNum i \<Rightarrow> i | _ \<Rightarrow> 31)
      in \<lparr>hp = ((2 * hp b + iv ''hp'' + ev ''hp'' div 4) * lvl) div 100 + lvl + 10,
          atk = example_stat nature ''atk'' (atk b) (iv ''atk'') (ev ''atk'') lvl,
          def = example_stat nature ''def'' (def b) (iv ''def'') (ev ''def'') lvl,
          spa = example_stat nature ''spa'' (spa b) (iv ''spa'') (ev ''spa'') lvl,
          spd = example_stat nature ''spd'' (spd b) (iv ''spd'') (ev ''spd'') lvl,
          spe = example_stat nature ''spe'' (spe b) (iv ''spe'') (ev ''spe'') lvl\<rparr>)"

definition example_Pokemon :: "int \<Rightarrow> jsval \<Rightarrow> options \<Rightarrow> pokemon thrown" where
  "example_Pokemon gen nm opts =
     (case nm of
        JStr n \<Rightarrow>
          (case example_species n of
             None \<Rightarrow> Inl (''unknown species '' @ n)
           | Some (canonical, b) \<Rightarrow>
               Inr \<lparr>species = \<lparr>name = canonical, baseStats = b\<rparr>,
                    level = num_or (opts ''level'') 100,
                    rawStats = example_raw b opts,
                    stats = example_raw b opts\<rparr>)
      | _ \<Rightarrow> Inl ''unknown species'')"

definition example_Move :: "int \<Rightarrow> jsval \<Rightarrow> options \<Rightarrow> string thrown" where
  "example_Move gen nm opts =
     (if nm = JStr ''Earthquake'' then Inr ''Earthquake'' else Inl ''unknown move'')"

definition example_calculate ::
  "int \<Rightarrow> pokemon \<Rightarrow> pokemon \<Rightarrow> string \<Rightarrow> jsval \<Rightarrow> (int \<times> int) thrown" where
  "example_calculate gen attacker defender move field =
     (let top = (atk (stats attacker) * 100) div (def (stats defender) + 1)
      in Inr ((top * 85) div 100, top))"

definition example_calc :: "(int, unit, string, jsval, int \<times> int) calculator" where
  "example_calc =
     \<lparr>Generations_get = (\<lambda>v. num_or v 9),
      new_Pokemon = example_Pokemon,
      new_Move = example_Move,
      new_Field = (\<lambda>init. init),
      calculate = example_calculate,
      result_damage = (\<lambda>r. JArr [JNum (fst r), JNum (snd r)]),
      result_range = (\<lambda>r. Inr (min (fst r) (snd r), max (fst r) (snd r))),
      result_kochance = (\<lambda>r. Inr (JObj [(''chance'', JNum 0), (''n'', JNum 2)])),
      result_desc = (\<lambda>r. Inr (JStr ''Garchomp Earthquake'')),
      result_fullDesc = (\<lambda>r. Inr (JStr ''Garchomp Earthquake vs. Ninetales-Alola''))\<rparr>"

text \<open>Requests for the examples.\<close>

definition garchomp :: jsval where
  "garchomp = JObj [(''name'', JStr ''Garchomp'')]"

definition ninetales :: jsval where
  "ninetales = JObj [(''name'', JStr ''Ninetales-Alola''), (''boosts'', JObj [(''spe'', JNum 2)])]"

definition speed_request :: jsval where
  "speed_request =
     JObj [(''type'', JStr ''speed''), (''pokemon1'', garchomp), (''pokemon2'', ninetales)]"

definition garchomp_plus1 :: jsval where
  "garchomp_plus1 = JObj [(''name'', JStr ''Garchomp''), (''boosts'', JObj [(''spe'', JNum 1)])]"

definition boosted_speed_request :: jsval where
  "boosted_speed_request =
     JObj [(''type'', JStr ''speed''),
           (''pokemon1'', garchomp_plus1),
           (''pokemon2'', JObj [(''name'', JStr ''Ninetales-Alola'')])]"

definition nameless_request :: jsval where
  "nameless_request =
     JObj [(''attacker'', JObj [(''level'', JNum 50)]), (''defender'', ninetales),
           (''move'', JObj [(''name'', JStr ''Earthquake'')])]"

definition damage_request :: jsval where
  "damage_request =
     JObj [(''attacker'', garchomp), (''defender'', ninetales),
           (''move'', JObj [(''name'', JStr ''Earthquake'')])]"

definition garchomp50 :: jsval where
  "garchomp50 = JObj [(''name'', JStr ''Garchomp''), (''level'', JNum 50)]"

definition garchomp_no_evs :: jsval where
  "garchomp_no_evs = JObj [(''name'', JStr ''Garchomp''), (''actualStats'', JBool True)]"

definition garchomp_empty_evs :: jsval where
  "garchomp_empty_evs =
     JObj [(''name'', JStr ''Garchomp''), (''actualStats'', JBool True), (''evs'', JObj [])]"

definition empty_name :: jsval where
  "empty_name = JObj [(''name'', JStr '''')]"

definition field_data :: jsval where
  "field_data =
     JObj [(''gameType'', JStr ''Doubles''),
           (''attackerSide'', JObj [(''isSR'', JBool True)]),
           (''weather'', JStr ''Sun'')]"

definition stats_request :: jsval where
  "stats_request =
     JObj [(''type'', JStr ''stats''),
           (''pokemon'', JObj [(''name'', JStr ''Garchomp''),
                               (''boosts'', JObj [(''atk'', JNum 2), (''spe'', JNum 1)])])]"

definition example_payload :: jsval where
  "example_payload =
     JObj [(''requests'', JArr [speed_request, nameless_request, damage_request])]"

section \<open>Evaluating the examples\<close>

lemmas eval_script =
  route_def read_prop_def nullish_def lookup_def opt_get_def js_or_def
  getStats_def calcOne_def compareSpeed_def speedSide_def speedSummary_def verdict_of_def
  buildPokemon_def buildMaxSpeedPokemon_def buildMove_def buildField_def sideSpeed_def
  pokemonOptions_def maxSpeedOptions_def moveOptions_def

lemmas eval_example =
  example_calc_def example_Pokemon_def example_raw_def example_species_def example_Move_def
  example_calculate_def example_stat_def stage_boost_def num_or_def Let_def
  toID_def lower_char_def id_char_def nature_of_def nature_mods_def

lemma route_nameless: "route orc gen nameless_request = Inl ''Pokemon data missing name''"
  by (simp add: nameless_request_def eval_script)

lemma example_requests:
  "get example_payload ''requests'' = JArr [speed_request, nameless_request, damage_request]"
  by (simp add: example_payload_def lookup_def)

lemma route_speed_example:
  "route example_calc g speed_request =
     Inr (JObj
       [(''pokemon1'',
         JObj [(''name'', JStr ''Garchomp''), (''baseSpe'', JNum 102),
               (''rawSpe'', JNum 333), (''effectiveSpe'', JNum 333),
               (''boosts'', JNum 0)]),
        (''pokemon2'',
         JObj [(''name'', JStr ''Ninetales-Alola''), (''baseSpe'', JNum 109),
               (''rawSpe'', JNum 348), (''effectiveSpe'', JNum 348),
               (''boosts'', JNum 2)]),
        (''verdict'', JStr ''POKEMON2_FASTER'')])"
  by (simp add: speed_request_def garchomp_def ninetales_def eval_script eval_example)

lemma route_damage_example:
  "route example_calc g damage_request =
     Inr (JObj
       [(''damage'', JArr [JNum 134, JNum 158]),
        (''range'', JArr [JNum 134, JNum 158]),
        (''desc'', JStr ''Garchomp Earthquake''),
        (''full_desc'', JStr ''Garchomp Earthquake vs. Ninetales-Alola''),
        (''ko'', JObj [(''chance'', JNum 0), (''n'', JNum 2)]),
        (''attacker_stats'', JObj [(''spe'', JNum 240), (''boostedSpe'', JNum 240)]),
        (''defender_stats'', JObj [(''spe'', JNum 254), (''boostedSpe'', JNum 254)])])"
  by (simp add: damage_request_def garchomp_def ninetales_def eval_script eval_example)

section \<open>The dispatch loop\<close>

lemma dispatch_map:
  "dispatch orc gen requests rs = rs @ map (handleRequest orc gen) requests"
  by (induction requests arbitrary: rs) simp_all

lemma get_array_not_nullish: "get v k = JArr xs \<Longrightarrow> \<not> nullish v"
  by (cases v) (simp_all add: nullish_def)

lemma run_requests:
  assumes "get payload ''requests'' = JArr requests"
  shows "run orc payload =
           Inr (JObj [(''results'',
             JArr (map (handleRequest orc (batch_gen orc payload)) requests))])"
  using assms get_array_not_nullish [OF assms]
  by (simp add: run_def read_prop_def js_or_def dispatch_map batch_gen_def)

lemma handleRequest_ok:
  "route orc gen request = Inr r \<Longrightarrow> is_ok (handleRequest orc gen request)"
  by (simp add: handleRequest_def is_ok_def lookup_def)

lemma handleRequest_failed:
  "route orc gen request = Inl e \<Longrightarrow> \<not> is_ok (handleRequest orc gen request)"
  by (simp add: handleRequest_def is_ok_def lookup_def)

text \<open>
  C1. For a payload whose \<^verbatim>\<open>requests\<close> is a list of N requests the script writes a
  \<^verbatim>\<open>results\<close> list of exactly N elements, and its i-th element is the outcome of
  handling the i-th request: the list is the requests list mapped through the handler,
  so nothing is dropped, reordered or merged.
\<close>

theorem batch_order_preserved:
  assumes "get payload ''requests'' = JArr requests"
  shows "\<exists>rs. run orc payload = Inr (JObj [(''results'', JArr rs)]) \<and>
              rs = map (handleRequest orc (batch_gen orc payload)) requests \<and>
              length rs = length requests \<and>
              (\<forall>i<length requests.
                 rs ! i = handleRequest orc (batch_gen orc payload) (requests ! i))"
  using run_requests [OF assms, of orc] by simp

theorem batch_order_preserved_witness:
  "\<exists>rs. run example_calc example_payload = Inr (JObj [(''results'', JArr rs)]) \<and>
        length rs = 3 \<and>
        rs ! 1 = JObj [(''ok'', JBool False), (''error'', JStr ''Pokemon data missing name'')]"
  using batch_order_preserved [OF example_requests, of example_calc]
  by (simp add: handleRequest_def route_nameless)

lemma filter_all_but_one:
  "i < length xs \<Longrightarrow> \<not> P (xs ! i) \<Longrightarrow> (\<forall>j<length xs. j \<noteq> i \<longrightarrow> P (xs ! j)) \<Longrightarrow>
   length (filter P xs) = length xs - 1"
proof (induction xs arbitrary: i)
  case Nil
  then show ?case by simp
next
  case (Cons x xs)
  show ?case
  proof (cases i)
    case 0
    have "\<forall>y\<in>set xs. P y"
    proof
      fix y assume "y \<in> set xs"
      then obtain j where "j < length xs" "xs ! j = y" by (auto simp: in_set_conv_nth)
      with Cons.prems(3) [rule_format, of "Suc j"] show "P y" using 0 by simp
    qed
    then have "filter P xs = xs" by simp
    with 0 Cons.prems(2) show ?thesis by simp
  next
    case (Suc k)
    have px: "P x" using Cons.prems(3) [rule_format, of 0] Suc by simp
    have "length (filter P xs) = length xs - 1"
    proof (rule Cons.IH)
      show "k < length xs" using Cons.prems(1) Suc by simp
      show "\<not> P (xs ! k)" using Cons.prems(2) Suc by simp
      show "\<forall>j<length xs. j \<noteq> k \<longrightarrow> P (xs ! j)"
      proof (intro allI impI)
        fix j assume "j < length xs" "j \<noteq> k"
        with Cons.prems(3) [rule_format, of "Suc j"] Suc show "P (xs ! j)" by simp
      qed
    qed
    moreover have "0 < length xs" using Cons.prems(1) Suc by auto
    ultimately show ?thesis using px by simp
  qed
qed

text \<open>
  C2. If handling request i fails with a message (a builder's validation failure, a
  failure of the library, a TypeError), the i-th result is \<^verbatim>\<open>{ok: false, error: message}\<close>
  and the batch is not aborted: every request j is reported with the outcome it has as
  the only request of a batch of the same generation. If all the other requests
  succeed, they are reported \<^verbatim>\<open>{ok: true, result}\<close> at their own positions, and exactly
  N - 1 entries are ok.
\<close>

theorem fault_isolation:
  assumes reqs: "get payload ''requests'' = JArr requests"
    and i: "i < length requests"
    and fails: "route orc (batch_gen orc payload) (requests ! i) = Inl message"
  shows "\<exists>rs. run orc payload = Inr (JObj [(''results'', JArr rs)]) \<and>
              length rs = length requests \<and>
              rs ! i = JObj [(''ok'', JBool False), (''error'', JStr message)] \<and>
              (\<forall>j<length requests.
                 run orc (JObj [(''gen'', get payload ''gen''),
                                (''requests'', JArr [requests ! j])]) =
                   Inr (JObj [(''results'', JArr [rs ! j])])) \<and>
              ((\<forall>j<length requests. j \<noteq> i \<longrightarrow>
                   (\<exists>r. route orc (batch_gen orc payload) (requests ! j) = Inr r)) \<longrightarrow>
               (\<forall>j<length requests. j \<noteq> i \<longrightarrow>
                   (\<exists>r. rs ! j = JObj [(''ok'', JBool True), (''result'', r)])) \<and>
               length (filter is_ok rs) = length requests - 1)"
proof -
  let ?g = "batch_gen orc payload"
  let ?rs = "map (handleRequest orc ?g) requests"
  have run: "run orc payload = Inr (JObj [(''results'', JArr ?rs)])"
    by (rule run_requests [OF reqs])
  have at_i: "?rs ! i = JObj [(''ok'', JBool False), (''error'', JStr message)]"
    using i fails by (simp add: handleRequest_def)
  have single:
    "run orc (JObj [(''gen'', get payload ''gen''), (''requests'', JArr [requests ! j])]) =
       Inr (JObj [(''results'', JArr [?rs ! j])])" if "j < length requests" for j
  proof -
    let ?p = "JObj [(''gen'', get payload ''gen''), (''requests'', JArr [requests ! j])]"
    have "get ?p ''requests'' = JArr [requests ! j]" by (simp add: lookup_def)
    moreover have "batch_gen orc ?p = ?g" by (simp add: batch_gen_def lookup_def)
    ultimately show ?thesis using run_requests [of ?p "[requests ! j]" orc] that by simp
  qed
  have count: "length (filter is_ok ?rs) = length requests - 1"
    and others: "\<forall>j<length requests. j \<noteq> i \<longrightarrow>
                   (\<exists>r. ?rs ! j = JObj [(''ok'', JBool True), (''result'', r)])"
    if ok: "\<forall>j<length requests. j \<noteq> i \<longrightarrow> (\<exists>r. route orc ?g (requests ! j) = Inr r)"
  proof -
    have "\<not> is_ok (?rs ! i)" using i fails by (simp add: handleRequest_failed)
    moreover have "\<forall>j<length ?rs. j \<noteq> i \<longrightarrow> is_ok (?rs ! j)"
      using ok by (auto simp: handleRequest_ok)
    ultimately have "length (filter is_ok ?rs) = length ?rs - 1"
      using i by (intro filter_all_but_one) simp_all
    then show "length (filter is_ok ?rs) = length requests - 1" by simp
    show "\<forall>j<length requests. j \<noteq> i \<longrightarrow>
            (\<exists>r. ?rs ! j = JObj [(''ok'', JBool True), (''result'', r)])"
      using ok by (auto simp: handleRequest_def)
  qed
  show ?thesis
    using run at_i single count others by (intro exI [of _ ?rs]) simp
qed

theorem fault_isolation_witness:
  "\<exists>rs. run example_calc example_payload = Inr (JObj [(''results'', JArr rs)]) \<and>
        length rs = 3 \<and>
        rs ! 1 = JObj [(''ok'', JBool False), (''error'', JStr ''Pokemon data missing name'')] \<and>
        (\<exists>r. rs ! 0 = JObj [(''ok'', JBool True), (''result'', r)]) \<and>
        (\<exists>r. rs ! 2 = JObj [(''ok'', JBool True), (''result'', r)]) \<and>
        length (filter is_ok rs) = 2"
proof -
  let ?requests = "[speed_request, nameless_request, damage_request]"
  have others: "\<forall>j<length ?requests. j \<noteq> 1 \<longrightarrow>
      (\<exists>r. route example_calc (batch_gen example_calc example_payload) (?requests ! j) = Inr r)"
    by (auto simp: less_Suc_eq numeral_3_eq_3 route_speed_example route_damage_example)
  have "route example_calc (batch_gen example_calc example_payload) (?requests ! 1) =
          Inl ''Pokemon data missing name''"
    by (simp add: route_nameless)
  from fault_isolation [OF example_requests _ this] others
  obtain rs where rs: "run example_calc example_payload = Inr (JObj [(''results'', JArr rs)])"
      "length rs = 3"
      "rs ! 1 = JObj [(''ok'', JBool False), (''error'', JStr ''Pokemon data missing name'')]"
      "\<forall>j<3. j \<noteq> 1 \<longrightarrow> (\<exists>r. rs ! j = JObj [(''ok'', JBool True), (''result'', r)])"
      "length (filter is_ok rs) = 2"
    by auto
  from rs(4) have "\<exists>r. rs ! 0 = JObj [(''ok'', JBool True), (''result'', r)]"
    and "\<exists>r. rs ! 2 = JObj [(''ok'', JBool True), (''result'', r)]"
    by simp_all
  with rs show ?thesis by blast
qed

section \<open>The speed resolver\<close>

lemma seq_Inr_iff: "seq m f = Inr y \<longleftrightarrow> (\<exists>x. m = Inr x \<and> f x = Inr y)"
  by (cases m) simp_all

lemma truthy_get_object: "truthy (get p k) \<Longrightarrow> \<exists>kvs. p = JObj kvs"
  by (cases p) simp_all

lemma falsy_get: "\<not> truthy p \<Longrightarrow> get p k = JUndefined"
  by (cases p) simp_all

lemma nullish_get: "nullish p \<Longrightarrow> get p k = JUndefined"
  by (auto simp: nullish_def)

lemma lookup_snoc2:
  "lookup (kvs @ [(a, x), (b, y)]) k = (if k = b then y else if k = a then x else lookup kvs k)"
  by (simp add: lookup_def)

text \<open>The options that the actual-stats branch of a side hands to the constructor.\<close>

lemma actual_branch_options:
  "pokemonOptions (JObj (kvs @
      [(''evs'', js_or (lookup kvs ''evs'') (JObj [(''spe'', JNum 252)])),
       (''ivs'', js_or (lookup kvs ''ivs'') (JObj [(''spe'', JNum 31)]))])) =
   (pokemonOptions (JObj kvs))
     (''evs'' := js_or (lookup kvs ''evs'') (JObj [(''spe'', JNum 252)]),
      ''ivs'' := js_or (lookup kvs ''ivs'') (JObj [(''spe'', JNum 31)]))"
  by (rule ext) (simp add: pokemonOptions_def lookup_snoc2, simp add: lookup_def)

lemma speedSide_actual:
  assumes "truthy (get p ''actualStats'')"
  shows "speedSide orc gen p =
           (if \<not> truthy (get p ''name'') then Inl ''Pokemon data missing name''
            else new_Pokemon orc gen (get p ''name'')
              ((pokemonOptions p)
                 (''evs'' := js_or (get p ''evs'') (JObj [(''spe'', JNum 252)]),
                  ''ivs'' := js_or (get p ''ivs'') (JObj [(''spe'', JNum 31)]))))"
proof -
  from truthy_get_object [OF assms] obtain kvs where p: "p = JObj kvs" by blast
  show ?thesis
    using assms unfolding p
    by (simp add: speedSide_def read_prop_def nullish_def buildPokemon_def
        actual_branch_options lookup_snoc2)
qed

lemma speedSide_max:
  assumes "\<not> nullish p" "\<not> truthy (get p ''actualStats'')"
  shows "speedSide orc gen p =
           (if \<not> truthy (get p ''name'') then Inl ''Pokemon data missing name''
            else new_Pokemon orc gen (get p ''name'') (maxSpeedOptions p))"
  using assms falsy_get [of p "''name''"]
  by (auto simp add: speedSide_def read_prop_def buildMaxSpeedPokemon_def)

lemma speedSide_nullish: "nullish p \<Longrightarrow> speedSide orc gen p = Inl (cannot_read p ''actualStats'')"
  by (simp add: speedSide_def read_prop_def)

lemma explicit_reads:
  "get (explicitMaxRequest lvl p) ''actualStats'' = JBool True"
  "get (explicitMaxRequest lvl p) ''name'' = get p ''name''"
  "get (explicitMaxRequest lvl p) ''boosts'' = get p ''boosts''"
  "\<not> nullish (explicitMaxRequest lvl p)"
  by (simp_all add: explicitMaxRequest_def lookup_def nullish_def)

lemma explicit_options:
  "(pokemonOptions (explicitMaxRequest (js_or (get p ''level'') (JNum 100)) p))
     (''evs'' := js_or (get (explicitMaxRequest (js_or (get p ''level'') (JNum 100)) p) ''evs'')
                  (JObj [(''spe'', JNum 252)]),
      ''ivs'' := js_or (get (explicitMaxRequest (js_or (get p ''level'') (JNum 100)) p) ''ivs'')
                  (JObj [(''spe'', JNum 31)])) =
   maxSpeedOptions p"
  by (rule ext)
    (simp add: pokemonOptions_def maxSpeedOptions_def explicitMaxRequest_def lookup_def js_or_def)

lemma speedSide_explicit:
  assumes "\<not> nullish p" and "\<not> truthy (get p ''actualStats'')"
  shows "speedSide orc gen (explicitMaxRequest (js_or (get p ''level'') (JNum 100)) p) =
         speedSide orc gen p"
  using assms
  by (simp add: speedSide_max speedSide_actual explicit_reads explicit_options)


lemma compareSpeed_built:
  assumes "speedSide orc gen (get request ''pokemon1'') = Inr pokemon1"
    and "speedSide orc gen (get request ''pokemon2'') = Inr pokemon2"
  shows "compareSpeed orc gen request =
     Inr (JObj
       [(''pokemon1'', speedSummary pokemon1 (get request ''pokemon1'')),
        (''pokemon2'', speedSummary pokemon2 (get request ''pokemon2'')),
        (''verdict'', JStr (verdict_of (spe (stats pokemon1)) (spe (stats pokemon2))))])"
proof -
  have "\<not> nullish request"
  proof
    assume "nullish request"
    then have "get request ''pokemon1'' = JUndefined" by (rule nullish_get)
    with assms(1) show False by (simp add: speedSide_nullish nullish_def)
  qed
  with assms show ?thesis by (simp add: compareSpeed_def read_prop_def)
qed


lemma speedSide_constructed:
  assumes "speedSide orc gen p = Inr q"
  shows "\<exists>nm opts. new_Pokemon orc gen nm opts = Inr q"
proof (cases "nullish p")
  case True
  with assms show ?thesis by (simp add: speedSide_nullish)
next
  case False
  show ?thesis
  proof (cases "truthy (get p ''actualStats'')")
    case True
    with assms show ?thesis by (auto simp: speedSide_actual split: if_splits)
  next
    case actual: False
    with assms False show ?thesis by (auto simp: speedSide_max split: if_splits)
  qed
qed

lemma example_constructed:
  assumes "new_Pokemon example_calc gen nm opts = Inr p"
  shows "stats p = rawStats p"
proof -
  from assms have built: "example_Pokemon gen nm opts = Inr p"
    by (simp add: example_calc_def)
  then obtain n where nm: "nm = JStr n"
    by (cases nm) (simp_all add: example_Pokemon_def)
  from built obtain canonical b where "example_species n = Some (canonical, b)"
    unfolding nm by (cases "example_species n") (auto simp: example_Pokemon_def)
  with built have "p = \<lparr>species = \<lparr>name = canonical, baseStats = b\<rparr>,
      level = num_or (opts ''level'') 100,
      rawStats = example_raw b opts, stats = example_raw b opts\<rparr>"
    unfolding nm by (simp add: example_Pokemon_def)
  then show ?thesis by simp
qed

text \<open>
  C3. \<^verbatim>\<open>compareSpeed\<close> takes \<^verbatim>\<open>stats.spe\<close> of each combatant as constructed for its
  effective speed (its comment: includes boosts). With a library whose constructor
  leaves \<^verbatim>\<open>stats\<close> equal to \<^verbatim>\<open>rawStats\<close>, the \<^verbatim>\<open>effectiveSpe\<close> reported
  for each side is its raw speed and the verdict is the comparison of the two raw
  speeds, whatever boost stage the request gives and reports under \<^verbatim>\<open>boosts\<close>: the
  boost-adjusted speeds are not what is compared.
\<close>

theorem compareSpeed_ignores_boosts:
  assumes constructed:
      "\<forall>nm opts p. new_Pokemon orc gen nm opts = Inr p \<longrightarrow> stats p = rawStats p"
    and one: "speedSide orc gen (get request ''pokemon1'') = Inr pokemon1"
    and two: "speedSide orc gen (get request ''pokemon2'') = Inr pokemon2"
  shows "\<exists>res. compareSpeed orc gen request = Inr res \<and>
     get (get res ''pokemon1'') ''effectiveSpe'' = JNum (spe (rawStats pokemon1)) \<and>
     get (get res ''pokemon2'') ''effectiveSpe'' = JNum (spe (rawStats pokemon2)) \<and>
     get (get res ''pokemon1'') ''effectiveSpe'' = get (get res ''pokemon1'') ''rawSpe'' \<and>
     get (get res ''pokemon2'') ''effectiveSpe'' = get (get res ''pokemon2'') ''rawSpe'' \<and>
     get (get res ''pokemon1'') ''boosts'' =
       js_or (opt_get (get (get request ''pokemon1'') ''boosts'') ''spe'') (JNum 0) \<and>
     get (get res ''pokemon2'') ''boosts'' =
       js_or (opt_get (get (get request ''pokemon2'') ''boosts'') ''spe'') (JNum 0) \<and>
     get res ''verdict'' =
       JStr (verdict_of (spe (rawStats pokemon1)) (spe (rawStats pokemon2)))"
proof -
  from speedSide_constructed [OF one] constructed have s1: "stats pokemon1 = rawStats pokemon1"
    by blast
  from speedSide_constructed [OF two] constructed have s2: "stats pokemon2 = rawStats pokemon2"
    by blast
  show ?thesis
    unfolding compareSpeed_built [OF one two]
    by (simp add: lookup_def speedSummary_def s1 s2)
qed

theorem compareSpeed_ignores_boosts_witness:
  "(\<exists>res. compareSpeed example_calc 9 boosted_speed_request = Inr res \<and>
          get (get res ''pokemon1'') ''boosts'' = JNum 1 \<and>
          get (get res ''pokemon1'') ''effectiveSpe'' = JNum 333 \<and>
          get (get res ''pokemon2'') ''effectiveSpe'' = JNum 348 \<and>
          get res ''verdict'' = JStr ''POKEMON2_FASTER'') \<and>
   stage_boost 333 1 = 499 \<and> stage_boost 348 0 = 348 \<and>
   verdict_of (stage_boost 333 1) (stage_boost 348 0) = ''POKEMON1_FASTER''"
proof -
  have one: "speedSide example_calc 9 (get boosted_speed_request ''pokemon1'') = Inr
     \<lparr>species = \<lparr>name = ''Garchomp'',
             baseStats = \<lparr>hp = 108, atk = 130, def = 95, spa = 80, spd = 85, spe = 102\<rparr>\<rparr>,
          level = 100,
          rawStats = \<lparr>hp = 357, atk = 296, def = 226, spa = 176, spd = 206, spe = 333\<rparr>,
          stats = \<lparr>hp = 357, atk = 296, def = 226, spa = 176, spd = 206, spe = 333\<rparr>\<rparr>"
    by (simp add: boosted_speed_request_def garchomp_plus1_def eval_script eval_example)
  have two: "speedSide example_calc 9 (get boosted_speed_request ''pokemon2'') = Inr
      \<lparr>species = \<lparr>name = ''Ninetales-Alola'',
             baseStats = \<lparr>hp = 73, atk = 67, def = 75, spa = 81, spd = 100, spe = 109\<rparr>\<rparr>,
          level = 100,
          rawStats = \<lparr>hp = 287, atk = 170, def = 186, spa = 178, spd = 236, spe = 348\<rparr>,
          stats = \<lparr>hp = 287, atk = 170, def = 186, spa = 178, spd = 236, spe = 348\<rparr>\<rparr>"
    by (simp add: boosted_speed_request_def eval_script eval_example)
  have boosts: "js_or (opt_get (get (get boosted_speed_request ''pokemon1'') ''boosts'') ''spe'')
      (JNum 0) = JNum 1"
    by (simp add: boosted_speed_request_def garchomp_plus1_def eval_script)
  have constructed:
    "\<forall>nm opts p. new_Pokemon example_calc 9 nm opts = Inr p \<longrightarrow> stats p = rawStats p"
    by (blast intro: example_constructed)
  from compareSpeed_ignores_boosts [OF constructed one two]
  have "\<exists>res. compareSpeed example_calc 9 boosted_speed_request = Inr res \<and>
          get (get res ''pokemon1'') ''boosts'' = JNum 1 \<and>
          get (get res ''pokemon1'') ''effectiveSpe'' = JNum 333 \<and>
          get (get res ''pokemon2'') ''effectiveSpe'' = JNum 348 \<and>
          get res ''verdict'' = JStr ''POKEMON2_FASTER''"
    unfolding boosts by (auto simp: verdict_of_def)
  moreover have "stage_boost 333 1 = 499" "stage_boost 348 0 = 348"
    "verdict_of (stage_boost 333 1) (stage_boost 348 0) = ''POKEMON1_FASTER''"
    by (simp_all add: stage_boost_def verdict_of_def)
  ultimately show ?thesis by blast
qed

lemma sideSpeed_examples:
  "sideSpeed example_calc g garchomp = Inr 333"
  "sideSpeed example_calc g garchomp50 = Inr 169"
  "sideSpeed example_calc g (explicitMaxRequest (JNum 100) garchomp50) = Inr 333"
  "sideSpeed example_calc g garchomp_no_evs = Inr 303"
  "sideSpeed example_calc g garchomp_empty_evs = Inr 240"
  by (simp_all add: garchomp_def garchomp50_def garchomp_no_evs_def garchomp_empty_evs_def
      explicitMaxRequest_def eval_script eval_example)


text \<open>
  C4. A side described without a truthy \<^verbatim>\<open>actualStats\<close> flag gets the same combatant, and
  so the same effective speed, as the explicit actual-stats request with the
  speed-raising nature, EVs \<^verbatim>\<open>{spe: 252}\<close> and 0 elsewhere, IVs all 31, the same boosts,
  ability, item and status, and the level the description gives, 100 when it gives none
  (or 0): \<^verbatim>\<open>level: data.level || 100\<close>. With either description on either side
  \<^verbatim>\<open>compareSpeed\<close> returns the same value.
\<close>

theorem max_investment_default:
  assumes "\<not> nullish p" and "\<not> truthy (get p ''actualStats'')"
  shows "sideSpeed orc gen (explicitMaxRequest (js_or (get p ''level'') (JNum 100)) p) =
           sideSpeed orc gen p \<and>
         compareSpeed orc gen
           (JObj [(''pokemon1'', explicitMaxRequest (js_or (get p ''level'') (JNum 100)) p),
                  (''pokemon2'', q)]) =
           compareSpeed orc gen (JObj [(''pokemon1'', p), (''pokemon2'', q)]) \<and>
         compareSpeed orc gen
           (JObj [(''pokemon1'', q),
                  (''pokemon2'', explicitMaxRequest (js_or (get p ''level'') (JNum 100)) p)]) =
           compareSpeed orc gen (JObj [(''pokemon1'', q), (''pokemon2'', p)])"
  using assms
  by (simp add: sideSpeed_def compareSpeed_def read_prop_def nullish_def lookup_def
      speedSide_explicit speedSummary_def explicit_reads)

theorem max_investment_default_witness:
  "sideSpeed example_calc 9 (explicitMaxRequest (JNum 50) garchomp50) =
     sideSpeed example_calc 9 garchomp50 \<and>
   sideSpeed example_calc 9 garchomp50 = Inr 169 \<and>
   sideSpeed example_calc 9 (explicitMaxRequest (JNum 100) garchomp) =
     sideSpeed example_calc 9 garchomp \<and>
   sideSpeed example_calc 9 garchomp = Inr 333"
proof -
  have "\<not> nullish garchomp50" "\<not> truthy (get garchomp50 ''actualStats'')"
    "js_or (get garchomp50 ''level'') (JNum 100) = JNum 50"
    "\<not> nullish garchomp" "\<not> truthy (get garchomp ''actualStats'')"
    "js_or (get garchomp ''level'') (JNum 100) = JNum 100"
    by (simp_all add: garchomp50_def garchomp_def nullish_def lookup_def js_or_def)
  with max_investment_default [of garchomp50 example_calc 9]
    max_investment_default [of garchomp example_calc 9]
  show ?thesis by (simp add: sideSpeed_examples)
qed

text \<open>
  With level 100 in the explicit request whatever the description says, the two speeds
  differ for a description at level 50: 169 against 333 in the example library.
\<close>

theorem level_100_counterexample:
  "\<not> nullish garchomp50 \<and> \<not> truthy (get garchomp50 ''actualStats'') \<and>
   sideSpeed example_calc 9 garchomp50 = Inr 169 \<and>
   sideSpeed example_calc 9 (explicitMaxRequest (JNum 100) garchomp50) = Inr 333"
  by (simp add: sideSpeed_examples) (simp add: garchomp50_def nullish_def lookup_def)

text \<open>
  C10. For a side marked \<^verbatim>\<open>actualStats\<close>, the constructor gets the description's own
  \<^verbatim>\<open>evs\<close> whenever that is truthy, and \<^verbatim>\<open>{spe: 252}\<close> only otherwise (likewise \<^verbatim>\<open>ivs\<close>
  and \<^verbatim>\<open>{spe: 31}\<close>). Any EV object, also an empty one or one without \<^verbatim>\<open>spe\<close>, is handed
  over unchanged: no speed EV is added to it, and the library's default applies.
\<close>

theorem actualStats_default_only_when_absent:
  assumes "truthy (get p ''actualStats'')" and "truthy (get p ''name'')"
  shows "\<exists>opts. speedSide orc gen p = new_Pokemon orc gen (get p ''name'') opts \<and>
           opts ''evs'' = (if truthy (get p ''evs'') then get p ''evs''
                           else JObj [(''spe'', JNum 252)]) \<and>
           opts ''ivs'' = (if truthy (get p ''ivs'') then get p ''ivs''
                           else JObj [(''spe'', JNum 31)]) \<and>
           (\<forall>kvs. get p ''evs'' = JObj kvs \<longrightarrow>
              opts ''evs'' = JObj kvs \<and> get (opts ''evs'') ''spe'' = lookup kvs ''spe'') \<and>
           (\<forall>kvs. get p ''ivs'' = JObj kvs \<longrightarrow>
              opts ''ivs'' = JObj kvs \<and> get (opts ''ivs'') ''spe'' = lookup kvs ''spe'') \<and>
           (\<forall>k. k \<noteq> ''evs'' \<longrightarrow> k \<noteq> ''ivs'' \<longrightarrow> opts k = pokemonOptions p k)"
proof -
  let ?opts = "(pokemonOptions p)
     (''evs'' := js_or (get p ''evs'') (JObj [(''spe'', JNum 252)]),
      ''ivs'' := js_or (get p ''ivs'') (JObj [(''spe'', JNum 31)]))"
  have built: "speedSide orc gen p = new_Pokemon orc gen (get p ''name'') ?opts"
    using assms by (simp add: speedSide_actual)
  have evs: "?opts ''evs'' = (if truthy (get p ''evs'') then get p ''evs''
                              else JObj [(''spe'', JNum 252)])"
    and ivs: "?opts ''ivs'' = (if truthy (get p ''ivs'') then get p ''ivs''
                               else JObj [(''spe'', JNum 31)])"
    and rest: "\<forall>k. k \<noteq> ''evs'' \<longrightarrow> k \<noteq> ''ivs'' \<longrightarrow> ?opts k = pokemonOptions p k"
    by (simp_all add: js_or_def)
  have evs_obj: "\<forall>kvs. get p ''evs'' = JObj kvs \<longrightarrow>
      ?opts ''evs'' = JObj kvs \<and> get (?opts ''evs'') ''spe'' = lookup kvs ''spe''"
    and ivs_obj: "\<forall>kvs. get p ''ivs'' = JObj kvs \<longrightarrow>
      ?opts ''ivs'' = JObj kvs \<and> get (?opts ''ivs'') ''spe'' = lookup kvs ''spe''"
    by (simp_all add: js_or_def)
  from built evs ivs evs_obj ivs_obj rest show ?thesis
    by (intro exI [of _ ?opts] conjI)
qed

theorem actualStats_default_only_when_absent_witness:
  "(\<exists>opts. speedSide example_calc 9 garchomp_empty_evs =
             new_Pokemon example_calc 9 (JStr ''Garchomp'') opts \<and>
           opts ''evs'' = JObj [] \<and> get (opts ''evs'') ''spe'' = JUndefined \<and>
           opts ''ivs'' = JObj [(''spe'', JNum 31)]) \<and>
   sideSpeed example_calc 9 garchomp_empty_evs = Inr 240 \<and>
   sideSpeed example_calc 9 garchomp_no_evs = Inr 303"
proof -
  have reads: "truthy (get garchomp_empty_evs ''actualStats'')"
    "truthy (get garchomp_empty_evs ''name'')"
    "get garchomp_empty_evs ''name'' = JStr ''Garchomp''"
    "get garchomp_empty_evs ''evs'' = JObj []"
    "get garchomp_empty_evs ''ivs'' = JUndefined"
    by (simp_all add: garchomp_empty_evs_def lookup_def)
  from actualStats_default_only_when_absent [OF reads(1,2), of example_calc 9]
  show ?thesis
    by (auto simp: reads sideSpeed_examples lookup_def)
qed

lemma falsy_iff:
  "\<not> truthy v \<longleftrightarrow>
     v = JUndefined \<or> v = JNull \<or> v = JBool False \<or> v = JNum 0 \<or> v = JStr ''''"
  by (cases v) auto

lemma pokemonOptions_reads:
  "list_all (\<lambda>k. pokemonOptions data k = get data k) pokemon_keys"
  by (simp add: pokemon_keys_def pokemonOptions_def lookup_def)

lemma pokemonOptions_others:
  "k \<notin> set pokemon_keys \<Longrightarrow> pokemonOptions data k = JUndefined"
  by (simp add: pokemon_keys_def pokemonOptions_def lookup_def)

section \<open>The builders\<close>

text \<open>
  C5. \<^verbatim>\<open>buildPokemon\<close> fails with the validation error exactly when its input is falsy
  (\<^verbatim>\<open>undefined\<close>, \<^verbatim>\<open>null\<close>, \<^verbatim>\<open>false\<close>, 0 or the empty string) or the input's \<^verbatim>\<open>name\<close> is
  falsy (no such field, or a name that is \<^verbatim>\<open>null\<close>, \<^verbatim>\<open>false\<close>, 0 or the empty string); it
  then returns the error alone, whatever the library: the constructor is not called and
  no combatant exists. In every other case the result is the constructor's, called with
  the name and with the twelve option fields as the input has them, absent ones
  \<^verbatim>\<open>undefined\<close>; the builder checks none of them.
\<close>

theorem buildPokemon_validation:
  "buildPokemon orc gen data =
     (if \<not> truthy data \<or> \<not> truthy (get data ''name'')
      then Inl ''Pokemon data missing name''
      else new_Pokemon orc gen (get data ''name'') (pokemonOptions data)) \<and>
   (\<not> truthy data \<longleftrightarrow>
      data = JUndefined \<or> data = JNull \<or> data = JBool False \<or> data = JNum 0 \<or>
      data = JStr '''') \<and>
   (\<not> truthy (get data ''name'') \<longleftrightarrow>
      get data ''name'' = JUndefined \<or> get data ''name'' = JNull \<or>
      get data ''name'' = JBool False \<or> get data ''name'' = JNum 0 \<or>
      get data ''name'' = JStr '''') \<and>
   list_all (\<lambda>k. pokemonOptions data k = get data k) pokemon_keys \<and>
   (\<forall>k. k \<notin> set pokemon_keys \<longrightarrow> pokemonOptions data k = JUndefined)"
  using falsy_iff [of data] falsy_iff [of "get data ''name''"]
    pokemonOptions_reads [of data] pokemonOptions_others [of _ data]
  by (simp add: buildPokemon_def)

theorem buildPokemon_validation_witness:
  "buildPokemon example_calc 9 garchomp =
     new_Pokemon example_calc 9 (JStr ''Garchomp'') (pokemonOptions garchomp) \<and>
   pokemonOptions garchomp ''level'' = JUndefined \<and>
   buildPokemon example_calc 9 (JObj [(''level'', JNum 50)]) = Inl ''Pokemon data missing name'' \<and>
   buildPokemon example_calc 9 JNull = Inl ''Pokemon data missing name''"
  using buildPokemon_validation [of example_calc 9 garchomp]
    buildPokemon_validation [of example_calc 9 "JObj [(''level'', JNum 50)]"]
    buildPokemon_validation [of example_calc 9 JNull]
  by (simp add: garchomp_def lookup_def pokemon_keys_def)

text \<open>
  A description that is present and has a \<^verbatim>\<open>name\<close> field, the empty string, fails
  validation all the same.
\<close>

theorem empty_name_counterexample:
  "empty_name \<noteq> JUndefined \<and> has_field empty_name ''name'' \<and>
   buildPokemon example_calc 9 empty_name = Inl ''Pokemon data missing name''"
  by (simp add: empty_name_def buildPokemon_def lookup_def)

lemma lookup_append:
  "lookup (xs @ ys) k = (if k \<in> set (map fst ys) then lookup ys k else lookup xs k)"
proof -
  have "k \<in> set (map fst ys) \<longleftrightarrow> map_of (rev ys) k \<noteq> None"
    by (simp add: map_of_eq_None_iff)
  then show ?thesis
    by (auto simp: lookup_def map_add_def split: option.splits)
qed

lemma lookup_snoc:
  "lookup (kvs @ [(a, x)]) k = (if k = a then x else lookup kvs k)"
  by (simp add: lookup_def)

text \<open>
  C6. \<^verbatim>\<open>buildField\<close> never throws: for every input it returns the \<^verbatim>\<open>Field\<close> built from
  some initialiser. For a falsy input (an absent one among them) that is the default:
  game type Singles and two empty side objects. For any other input each side of the
  initialiser is the default side with the supplied side's members merged onto it, a
  supplied member overriding and every other key read from the default; the attacker
  side depends on \<^verbatim>\<open>data.attackerSide\<close> alone and the defender side on
  \<^verbatim>\<open>data.defenderSide\<close> alone. The other keys are the input's, over the default's.
\<close>

theorem buildField_total:
  "(\<exists>init. buildField orc data = new_Field orc init) \<and>
   (\<not> truthy data \<longrightarrow> buildField orc data = new_Field orc base) \<and>
   get base ''gameType'' = JStr ''Singles'' \<and>
   get base ''attackerSide'' = JObj [] \<and>
   get base ''defenderSide'' = JObj [] \<and>
   (truthy data \<longrightarrow>
      buildField orc data = new_Field orc (fieldInit data) \<and>
      (\<forall>k. get (get (fieldInit data) ''attackerSide'') k =
            (if k \<in> set (map fst (own_props (js_or (get data ''attackerSide'') (JObj []))))
             then lookup (own_props (js_or (get data ''attackerSide'') (JObj []))) k
             else get (get base ''attackerSide'') k)) \<and>
      (\<forall>k. get (get (fieldInit data) ''defenderSide'') k =
            (if k \<in> set (map fst (own_props (js_or (get data ''defenderSide'') (JObj []))))
             then lookup (own_props (js_or (get data ''defenderSide'') (JObj []))) k
             else get (get base ''defenderSide'') k)) \<and>
      (\<forall>k. k \<noteq> ''attackerSide'' \<longrightarrow> k \<noteq> ''defenderSide'' \<longrightarrow>
            get (fieldInit data) k =
              (if k \<in> set (map fst (own_props data)) then lookup (own_props data) k
               else get base k)))"
proof -
  have sides: "get (fieldInit data) ''attackerSide'' =
      JObj (own_props (get base ''attackerSide'') @
            own_props (js_or (get data ''attackerSide'') (JObj [])))"
    "get (fieldInit data) ''defenderSide'' =
      JObj (own_props (get base ''defenderSide'') @
            own_props (js_or (get data ''defenderSide'') (JObj [])))"
    by (simp_all add: fieldInit_def lookup_def)
  have top: "get (fieldInit data) k =
      (if k \<in> set (map fst (own_props data)) then lookup (own_props data) k else get base k)"
    if "k \<noteq> ''attackerSide''" "k \<noteq> ''defenderSide''" for k
  proof -
    have "get (fieldInit data) k = lookup (own_props base @ own_props data) k"
      using that
      by (simp add: fieldInit_def lookup_snoc lookup_snoc [of "_ @ [_]", simplified] del: append_assoc
          flip: append_assoc)
    moreover have "lookup (own_props base) k = get base k"
      by (simp add: base_def)
    ultimately show ?thesis by (simp only: lookup_append)
  qed
  have ex: "\<exists>init. buildField orc data = new_Field orc init"
    by (cases "truthy data") (auto simp: buildField_def)
  have defaults: "get base ''gameType'' = JStr ''Singles''"
    "get base ''attackerSide'' = JObj []" "get base ''defenderSide'' = JObj []"
    by (simp_all add: base_def lookup_def)
  have built: "\<not> truthy data \<longrightarrow> buildField orc data = new_Field orc base"
    "truthy data \<longrightarrow> buildField orc data = new_Field orc (fieldInit data)"
    by (simp_all add: buildField_def)
  have merged:
    "get (get (fieldInit data) ''attackerSide'') k =
       (if k \<in> set (map fst (own_props (js_or (get data ''attackerSide'') (JObj []))))
        then lookup (own_props (js_or (get data ''attackerSide'') (JObj []))) k
        else get (get base ''attackerSide'') k)"
    "get (get (fieldInit data) ''defenderSide'') k =
       (if k \<in> set (map fst (own_props (js_or (get data ''defenderSide'') (JObj []))))
        then lookup (own_props (js_or (get data ''defenderSide'') (JObj []))) k
        else get (get base ''defenderSide'') k)" for k
    unfolding sides defaults by (simp_all only: get.simps own_props.simps lookup_append)
  from ex defaults built merged top show ?thesis by blast
qed

theorem buildField_total_witness:
  "buildField example_calc JUndefined = base \<and>
   get (buildField example_calc field_data) ''gameType'' = JStr ''Doubles'' \<and>
   get (buildField example_calc field_data) ''weather'' = JStr ''Sun'' \<and>
   get (get (buildField example_calc field_data) ''attackerSide'') ''isSR'' = JBool True \<and>
   get (buildField example_calc field_data) ''defenderSide'' = JObj []"
  using buildField_total [of example_calc JUndefined] buildField_total [of example_calc field_data]
  by (simp add: example_calc_def field_data_def fieldInit_def lookup_def base_def js_or_def)

section \<open>Stat query and damage resolver\<close>

lemma buildPokemon_constructed:
  "buildPokemon orc gen data = Inr q \<Longrightarrow> \<exists>nm opts. new_Pokemon orc gen nm opts = Inr q"
  by (auto simp: buildPokemon_def split: if_splits)

lemma buildMaxSpeedPokemon_constructed:
  "buildMaxSpeedPokemon orc gen data = Inr q \<Longrightarrow>
   \<exists>nm opts. new_Pokemon orc gen nm opts = Inr q"
  by (auto simp: buildMaxSpeedPokemon_def split: if_splits)

text \<open>
  C7. When the combatant of a stats request is built, \<^verbatim>\<open>getStats\<close> returns, and its
  \<^verbatim>\<open>hp\<close>, \<^verbatim>\<open>atk\<close>, \<^verbatim>\<open>def\<close>, \<^verbatim>\<open>spa\<close>, \<^verbatim>\<open>spd\<close> and \<^verbatim>\<open>spe\<close> are the combatant's raw stats,
  whatever boosts the request supplies. Its \<^verbatim>\<open>boostedSpe\<close> is \<^verbatim>\<open>stats.spe\<close> of the
  combatant as constructed: with a library whose constructor leaves \<^verbatim>\<open>stats\<close> equal to
  \<^verbatim>\<open>rawStats\<close> it is the raw speed again, equal to \<^verbatim>\<open>spe\<close>, and not the boost-adjusted
  speed.
\<close>

theorem getStats_boostedSpe_is_raw:
  assumes constructed:
      "\<forall>nm opts p. new_Pokemon orc gen nm opts = Inr p \<longrightarrow> stats p = rawStats p"
    and request: "\<not> nullish request"
    and built: "(if truthy (get request ''maxSpeed'')
          then buildMaxSpeedPokemon orc gen (get request ''pokemon'')
          else buildPokemon orc gen (get request ''pokemon'')) = Inr pokemon"
  shows "\<exists>res. getStats orc gen request = Inr res \<and>
           get res ''hp'' = JNum (hp (rawStats pokemon)) \<and>
           get res ''atk'' = JNum (atk (rawStats pokemon)) \<and>
           get res ''def'' = JNum (def (rawStats pokemon)) \<and>
           get res ''spa'' = JNum (spa (rawStats pokemon)) \<and>
           get res ''spd'' = JNum (spd (rawStats pokemon)) \<and>
           get res ''spe'' = JNum (spe (rawStats pokemon)) \<and>
           get res ''boostedSpe'' = JNum (spe (rawStats pokemon)) \<and>
           get res ''boostedSpe'' = get res ''spe''"
proof -
  from built have "\<exists>nm opts. new_Pokemon orc gen nm opts = Inr pokemon"
    by (auto dest: buildPokemon_constructed buildMaxSpeedPokemon_constructed split: if_splits)
  with constructed have "stats pokemon = rawStats pokemon" by blast
  with request built show ?thesis
    by (simp add: getStats_def read_prop_def lookup_def)
qed

theorem getStats_boostedSpe_is_raw_witness:
  "(\<exists>res. getStats example_calc 9 stats_request = Inr res \<and>
          get res ''atk'' = JNum 296 \<and> get res ''spe'' = JNum 240 \<and>
          get res ''boostedSpe'' = JNum 240) \<and>
   get (get (get stats_request ''pokemon'') ''boosts'') ''spe'' = JNum 1 \<and>
   stage_boost 240 1 = 360"
proof -
  have constructed:
    "\<forall>nm opts p. new_Pokemon example_calc 9 nm opts = Inr p \<longrightarrow> stats p = rawStats p"
    by (blast intro: example_constructed)
  have "\<not> nullish stats_request"
    by (simp add: stats_request_def nullish_def)
  moreover have "(if truthy (get stats_request ''maxSpeed'')
          then buildMaxSpeedPokemon example_calc 9 (get stats_request ''pokemon'')
          else buildPokemon example_calc 9 (get stats_request ''pokemon'')) =
     Inr \<lparr>species = \<lparr>name = ''Garchomp'',
             baseStats = \<lparr>hp = 108, atk = 130, def = 95, spa = 80, spd = 85, spe = 102\<rparr>\<rparr>,
          level = 100,
          rawStats = \<lparr>hp = 357, atk = 296, def = 226, spa = 196, spd = 206, spe = 240\<rparr>,
          stats = \<lparr>hp = 357, atk = 296, def = 226, spa = 196, spd = 206, spe = 240\<rparr>\<rparr>"
    by (simp add: stats_request_def eval_script eval_example)
  ultimately have "\<exists>res. getStats example_calc 9 stats_request = Inr res \<and>
          get res ''atk'' = JNum 296 \<and> get res ''spe'' = JNum 240 \<and>
          get res ''boostedSpe'' = JNum 240"
    using getStats_boostedSpe_is_raw [of example_calc 9 stats_request, OF constructed]
    by fastforce
  moreover have "get (get (get stats_request ''pokemon'') ''boosts'') ''spe'' = JNum 1"
    by (simp add: stats_request_def lookup_def)
  moreover have "stage_boost 240 1 = 360"
    by (simp add: stage_boost_def)
  ultimately show ?thesis by blast
qed

text \<open>
  C8. Every result that \<^verbatim>\<open>calcOne\<close> returns comes from a successful \<^verbatim>\<open>calculate\<close> on the
  built attacker, defender, move and field. Its \<^verbatim>\<open>range\<close> is the two-element array of
  the pair that the result's \<^verbatim>\<open>range()\<close> gives, in that order. \<^verbatim>\<open>attacker_stats\<close> and
  \<^verbatim>\<open>defender_stats\<close> hold \<^verbatim>\<open>rawStats.spe\<close> and, as \<^verbatim>\<open>boostedSpe\<close>, \<^verbatim>\<open>stats.spe\<close> of the
  combatants as constructed: with a library whose constructor leaves \<^verbatim>\<open>stats\<close> equal to
  \<^verbatim>\<open>rawStats\<close> both are the raw speed, and the boost-adjusted speed is not reported.
\<close>

theorem calcOne_boostedSpe_is_raw:
  assumes constructed:
      "\<forall>nm opts p. new_Pokemon orc gen nm opts = Inr p \<longrightarrow> stats p = rawStats p"
    and returned: "calcOne orc gen request = Inr res"
  shows "\<exists>attacker defender move result lo hi.
           buildPokemon orc gen (get request ''attacker'') = Inr attacker \<and>
           buildPokemon orc gen (get request ''defender'') = Inr defender \<and>
           buildMove orc gen (get request ''move'') = Inr move \<and>
           calculate orc gen attacker defender move (buildField orc (get request ''field'')) =
             Inr result \<and>
           result_range orc result = Inr (lo, hi) \<and>
           get res ''range'' = JArr [JNum lo, JNum hi] \<and>
           get res ''attacker_stats'' =
             JObj [(''spe'', JNum (spe (rawStats attacker))),
                   (''boostedSpe'', JNum (spe (rawStats attacker)))] \<and>
           get res ''defender_stats'' =
             JObj [(''spe'', JNum (spe (rawStats defender))),
                   (''boostedSpe'', JNum (spe (rawStats defender)))]"
proof -
  from returned obtain attacker_data attacker defender move result lo hi ko desc full_desc
    where steps:
      "read_prop request ''attacker'' = Inr attacker_data"
      "buildPokemon orc gen attacker_data = Inr attacker"
      "buildPokemon orc gen (get request ''defender'') = Inr defender"
      "buildMove orc gen (get request ''move'') = Inr move"
      "calculate orc gen attacker defender move (buildField orc (get request ''field'')) =
         Inr result"
      "result_range orc result = Inr (lo, hi)"
    and res: "res = JObj
       [(''damage'', result_damage orc result),
        (''range'', JArr [JNum lo, JNum hi]),
        (''desc'', desc),
        (''full_desc'', full_desc),
        (''ko'', ko),
        (''attacker_stats'', JObj
           [(''spe'', JNum (spe (rawStats attacker))),
            (''boostedSpe'', JNum (spe (stats attacker)))]),
        (''defender_stats'', JObj
           [(''spe'', JNum (spe (rawStats defender))),
            (''boostedSpe'', JNum (spe (stats defender)))])]"
    by (auto simp: calcOne_def seq_Inr_iff)
  from steps(1) have data: "attacker_data = get request ''attacker''"
    by (simp add: read_prop_def split: if_splits)
  from buildPokemon_constructed [OF steps(2)] constructed
  have a: "stats attacker = rawStats attacker" by blast
  from buildPokemon_constructed [OF steps(3)] constructed
  have d: "stats defender = rawStats defender" by blast
  from steps data res a d show ?thesis
    by (auto simp: lookup_def)
qed

theorem calcOne_boostedSpe_is_raw_witness:
  "(\<exists>res. calcOne example_calc 9 damage_request = Inr res \<and>
          get res ''defender_stats'' = JObj [(''spe'', JNum 254), (''boostedSpe'', JNum 254)]) \<and>
   get (get (get damage_request ''defender'') ''boosts'') ''spe'' = JNum 2 \<and>
   stage_boost 254 2 = 508"
proof -
  have returned: "calcOne example_calc 9 damage_request =
     Inr (JObj
       [(''damage'', JArr [JNum 134, JNum 158]),
        (''range'', JArr [JNum 134, JNum 158]),
        (''desc'', JStr ''Garchomp Earthquake''),
        (''full_desc'', JStr ''Garchomp Earthquake vs. Ninetales-Alola''),
        (''ko'', JObj [(''chance'', JNum 0), (''n'', JNum 2)]),
        (''attacker_stats'', JObj [(''spe'', JNum 240), (''boostedSpe'', JNum 240)]),
        (''defender_stats'', JObj [(''spe'', JNum 254), (''boostedSpe'', JNum 254)])])"
    using route_damage_example [of 9]
    by (simp add: route_def read_prop_def nullish_def damage_request_def lookup_def)
  have constructed:
    "\<forall>nm opts p. new_Pokemon example_calc 9 nm opts = Inr p \<longrightarrow> stats p = rawStats p"
    by (blast intro: example_constructed)
  from calcOne_boostedSpe_is_raw [OF constructed returned]
  have "\<exists>res. calcOne example_calc 9 damage_request = Inr res \<and>
          get res ''defender_stats'' = JObj [(''spe'', JNum 254), (''boostedSpe'', JNum 254)]"
    unfolding returned by (simp add: lookup_def)
  moreover have "get (get (get damage_request ''defender'') ''boosts'') ''spe'' = JNum 2"
    by (simp add: damage_request_def ninetales_def lookup_def)
  moreover have "stage_boost 254 2 = 508"
    by (simp add: stage_boost_def)
  ultimately show ?thesis by blast
qed

end
